theory Spec2Isabelle
  imports Complex_Main
begin

section \<open>JavaScript values\<close>

text \<open>
  Objects are references: two object values are the same value exactly when they are
  the same reference. Among these values a number is a real: \<^verbatim>\<open>NaN\<close>, the
  infinities and the negative zero are not represented as arguments.
\<close>

type_synonym ref = nat

datatype jsval =
    JUndefined
  | JNull
  | JBool bool
  | JNum real
  | JStr string
  | JObj ref

text \<open>ToBoolean: what \<^verbatim>\<open>if (v)\<close> and \<^verbatim>\<open>v || d\<close> test.\<close>

fun truthy :: "jsval \<Rightarrow> bool" where
  "truthy JUndefined = False"
| "truthy JNull = False"
| "truthy (JBool b) = b"
| "truthy (JNum r) = (r \<noteq> 0)"
| "truthy (JStr s) = (s \<noteq> [])"
| "truthy (JObj r) = True"

text \<open>The operator \<^verbatim>\<open>a || b\<close>: the left operand when it is truthy, else the right.\<close>

definition js_or :: "jsval \<Rightarrow> jsval \<Rightarrow> jsval" where
  "js_or a b = (if truthy a then a else b)"

text \<open>
  The operator \<^verbatim>\<open>a !== b\<close>: no coercion, so on this value type it is plain
  inequality (object references compared by identity).
\<close>

definition strict_neq :: "jsval \<Rightarrow> jsval \<Rightarrow> bool" where
  "strict_neq a b = (a \<noteq> b)"

section \<open>Coordinates\<close>

text \<open>
  The coordinates of a node are JavaScript numbers, and update compares them with
  \<^verbatim>\<open>!=\<close>. Under that operator \<^verbatim>\<open>NaN\<close> differs from every number and from
  itself, so \<^verbatim>\<open>NaN\<close> is a value of the type. The infinities and the negative
  zero are not represented: under \<^verbatim>\<open>!=\<close> they behave as every other number does
  (the negative zero as zero).
\<close>

datatype jsnum = Num real | NaN

text \<open>The operator \<^verbatim>\<open>a != b\<close> on two numbers.\<close>

definition num_neq :: "jsnum \<Rightarrow> jsnum \<Rightarrow> bool" where
  "num_neq a b = (a = NaN \<or> b = NaN \<or> a \<noteq> b)"

section \<open>The text node (src/gameobjects/Text.js)\<close>

text \<open>
  The fields are those the constructor assigns, in its order, with the fields of the
  PIXI.Text base object that this file reads or writes (\<^verbatim>\<open>canvas\<close>,
  \<^verbatim>\<open>context\<close>, \<^verbatim>\<open>rotation\<close>, \<^verbatim>\<open>position\<close>). Renamings:
  \<^verbatim>\<open>this.x\<close>, \<^verbatim>\<open>this.y\<close> are \<open>node_x\<close>, \<open>node_y\<close>;
  \<^verbatim>\<open>_text\<close>, \<^verbatim>\<open>_style\<close>, \<^verbatim>\<open>_cache\<close> are \<open>priv_text\<close>,
  \<open>priv_style\<close>, \<open>priv_cache\<close>; \<^verbatim>\<open>_cache.x\<close>, \<^verbatim>\<open>_cache.y\<close>,
  \<^verbatim>\<open>_cache.id\<close> are \<open>cache_x\<close>, \<open>cache_y\<close>, \<open>cache_id\<close>;
  \<^verbatim>\<open>type\<close> is \<open>obj_type\<close> and \<^verbatim>\<open>context\<close> is \<open>context_ref\<close>.

  The type parameter \<open>'n\<close> is the type of the slots filled from the constructor's
  \<^verbatim>\<open>x\<close> and \<^verbatim>\<open>y\<close>. The methods are modelled at the documented type
  (\<^verbatim>\<open>@param {number} x\<close>), \<open>'n = jsnum\<close>; the constructor, whose defaulting
  inspects whatever value it is given, at \<open>'n = jsval\<close>. The rotation, an angle
  converted by a library that is not in these sources, is a real.
\<close>

record 'n point =
  px :: 'n
  py :: 'n

record canvas_el =
  parentNode :: "ref option"

record 'n cache =
  dirty :: bool
  a00 :: real
  a01 :: real
  a02 :: 'n
  a10 :: real
  a11 :: real
  a12 :: 'n
  cache_id :: real
  cache_x :: 'n
  cache_y :: 'n
  scaleX :: real
  scaleY :: real

record 'n text_node =
  game :: jsval
  exists :: bool
  alive :: bool
  group :: "ref option"
  name :: string
  obj_type :: nat
  priv_text :: jsval
  priv_style :: jsval
  canvas :: "canvas_el option"
  context_ref :: "ref option"
  rotation :: real
  position :: "'n point"
  node_x :: 'n
  node_y :: 'n
  anchor :: "real point"
  scale :: "real point"
  priv_cache :: "'n cache"
  renderable :: bool

subsection \<open>update (lines 137-156)\<close>

definition update :: "jsnum text_node \<Rightarrow> jsnum text_node" where
  "update n =
     (if \<not> exists n then n
      else
        let c = (priv_cache n)\<lparr>dirty := False, cache_x := node_x n, cache_y := node_y n\<rparr>;
            p = position n
        in if num_neq (px p) (cache_x c) \<or> num_neq (py p) (cache_y c)
           then n\<lparr>position := p\<lparr>px := cache_x c, py := cache_y c\<rparr>,
                  priv_cache := c\<lparr>dirty := True\<rparr>\<rparr>
           else n\<lparr>priv_cache := c\<rparr>)"

subsection \<open>The constructor (lines 17-128)\<close>

text \<open>
  What the call \<^verbatim>\<open>PIXI.Text.call(this, text, style)\<close> leaves on the object, as far
  as this file reads it later. PIXI and the constant \<^verbatim>\<open>Phaser.TEXT\<close> are not in
  these sources, so both are parameters of the constructor.
\<close>

record pixi_text =
  pixi_canvas :: "canvas_el option"
  pixi_context :: "ref option"
  pixi_rotation :: real

record engine =
  TEXT :: nat
  PIXI_Text :: "jsval \<Rightarrow> jsval \<Rightarrow> pixi_text"

text \<open>
  Modelled from the spec: \<^verbatim>\<open>Phaser.Point\<close> is not in these sources; the spec has
  the anchor initialised to (0,0) by \<^verbatim>\<open>new Phaser.Point()\<close> and the scale to
  (1,1) by \<^verbatim>\<open>new Phaser.Point(1, 1)\<close>.
\<close>

definition Point :: "real \<Rightarrow> real \<Rightarrow> real point" where
  "Point a b = \<lparr>px = a, py = b\<rparr>"

text \<open>Lines 24-126: the object built from the arguments after defaulting.\<close>

definition Text_body :: "engine \<Rightarrow> jsval \<Rightarrow> 'n \<Rightarrow> 'n \<Rightarrow> jsval \<Rightarrow> jsval \<Rightarrow> 'n text_node" where
  "Text_body E g x y text style =
     (let s = PIXI_Text E text style in
      \<lparr>game = g,
       exists = True,
       alive = True,
       group = None,
       name = [],
       obj_type = TEXT E,
       priv_text = text,
       priv_style = style,
       canvas = pixi_canvas s,
       context_ref = pixi_context s,
       rotation = pixi_rotation s,
       position = \<lparr>px = x, py = y\<rparr>,
       node_x = x,
       node_y = y,
       anchor = Point 0 0,
       scale = Point 1 1,
       priv_cache = \<lparr>dirty = False, a00 = 1, a01 = 0, a02 = x, a10 = 0, a11 = 1, a12 = y,
                     cache_id = 1, cache_x = x, cache_y = y, scaleX = 1, scaleY = 1\<rparr>,
       renderable = True\<rparr>)"

text \<open>Lines 19-22, then the body. An omitted argument is \<^verbatim>\<open>undefined\<close>.\<close>

definition Text :: "engine \<Rightarrow> jsval \<Rightarrow> jsval \<Rightarrow> jsval \<Rightarrow> jsval \<Rightarrow> jsval \<Rightarrow> jsval text_node" where
  "Text E g x y text style =
     Text_body E g (js_or x (JNum 0)) (js_or y (JNum 0))
       (js_or text (JStr [])) (js_or style (JStr []))"

subsection \<open>Calls to collaborators\<close>

text \<open>
  Calls that leave this file are recorded in the order they are made:
  \<^verbatim>\<open>group.remove(this)\<close>, \<^verbatim>\<open>parentNode.removeChild(canvas)\<close>,
  \<^verbatim>\<open>this.setText(v)\<close>, \<^verbatim>\<open>this.setStyle(v)\<close> and \<^verbatim>\<open>signal.dispose()\<close>.
  A call is recorded, not made: in the setters and in the two destroy functions the
  only fault is the \<^verbatim>\<open>TypeError\<close> of reading a property of \<^verbatim>\<open>null\<close> in this
  file's own code. What a disposed signal does is added by \<open>Events_destroy_signals\<close>.
\<close>

datatype call =
    Group_remove ref
  | RemoveChild ref
  | SetText jsval
  | SetStyle jsval
  | Dispose ref

datatype fault = TypeError

subsection \<open>destroy (lines 161-182)\<close>

text \<open>The DOM's removeChild detaches the child: its parentNode is null afterwards.\<close>

definition removeChild :: "ref \<Rightarrow> canvas_el \<Rightarrow> canvas_el" where
  "removeChild p cv = cv\<lparr>parentNode := None\<rparr>"

definition destroy :: "'n text_node \<Rightarrow> fault + ('n text_node \<times> call list)" where
  "destroy n =
     (let cs = (case group n of Some g \<Rightarrow> [Group_remove g] | None \<Rightarrow> []) in
      case canvas n of
        None \<Rightarrow> Inl TypeError
      | Some cv \<Rightarrow>
          (case parentNode cv of
             Some p \<Rightarrow>
               Inr (n\<lparr>canvas := Some (removeChild p cv), exists := False, group := None\<rparr>,
                    cs @ [RemoveChild p])
           | None \<Rightarrow>
               Inr (n\<lparr>canvas := None, context_ref := None, exists := False, group := None\<rparr>,
                    cs)))"

subsection \<open>angle (lines 191-201)\<close>

text \<open>
  Modelled from the spec: \<^verbatim>\<open>Phaser.Math.degToRad\<close> and \<^verbatim>\<open>Phaser.Math.radToDeg\<close>
  are not in these sources; the spec calls them degreesToRadians and radiansToDegrees,
  pure numeric conversions with no state.
\<close>

definition degToRad :: "real \<Rightarrow> real" where
  "degToRad d = d * (pi / 180)"

definition radToDeg :: "real \<Rightarrow> real" where
  "radToDeg r = r * (180 / pi)"

definition angle_get :: "'n text_node \<Rightarrow> real" where
  "angle_get n = radToDeg (rotation n)"

definition angle_set :: "real \<Rightarrow> 'n text_node \<Rightarrow> 'n text_node" where
  "angle_set v n = n\<lparr>rotation := degToRad v\<rparr>"

subsection \<open>content and font (lines 203-239)\<close>

definition content_get :: "'n text_node \<Rightarrow> jsval" where
  "content_get n = priv_text n"

definition content_set :: "jsval \<Rightarrow> 'n text_node \<Rightarrow> 'n text_node \<times> call list" where
  "content_set v n =
     (if strict_neq v (priv_text n) then (n\<lparr>priv_text := v\<rparr>, [SetText v]) else (n, []))"

definition font_get :: "'n text_node \<Rightarrow> jsval" where
  "font_get n = priv_style n"

definition font_set :: "jsval \<Rightarrow> 'n text_node \<Rightarrow> 'n text_node \<times> call list" where
  "font_set v n =
     (if strict_neq v (priv_style n) then (n\<lparr>priv_style := v\<rparr>, [SetStyle v]) else (n, []))"

section \<open>The event hub (src/gameobjects/Events.js)\<close>

text \<open>A field holds a reference to a signal object, or \<^verbatim>\<open>null\<close> (\<open>None\<close>).\<close>

record events =
  parent :: "ref option"
  onAddedToGroup :: "ref option"
  onRemovedFromGroup :: "ref option"
  onKilled :: "ref option"
  onRevived :: "ref option"
  onOutOfBounds :: "ref option"
  onInputOver :: "ref option"
  onInputOut :: "ref option"
  onInputDown :: "ref option"
  onInputUp :: "ref option"
  onDragStart :: "ref option"
  onDragStop :: "ref option"
  onAnimationStart :: "ref option"
  onAnimationComplete :: "ref option"
  onAnimationLoop :: "ref option"

text \<open>
  The constructor (lines 15-35). Each \<^verbatim>\<open>new Phaser.Signal()\<close> is a fresh object:
  \<open>k\<close> is the first free reference, and the five signals take \<open>k\<close> to \<open>k + 4\<close>.
\<close>

definition Events :: "ref \<Rightarrow> ref \<Rightarrow> events" where
  "Events sprite k =
     \<lparr>parent = Some sprite,
      onAddedToGroup = Some k,
      onRemovedFromGroup = Some (k + 1),
      onKilled = Some (k + 2),
      onRevived = Some (k + 3),
      onOutOfBounds = Some (k + 4),
      onInputOver = None,
      onInputOut = None,
      onInputDown = None,
      onInputUp = None,
      onDragStart = None,
      onDragStop = None,
      onAnimationStart = None,
      onAnimationComplete = None,
      onAnimationLoop = None\<rparr>"

text \<open>
  Modelled from the spec: the collaborator that enables the input signals is not in
  these sources; the spec has it create all six input signals together. \<open>k\<close> is the
  first free reference.
\<close>

definition enable_input :: "ref \<Rightarrow> events \<Rightarrow> events" where
  "enable_input k h =
     h\<lparr>onInputOver := Some k,
       onInputOut := Some (k + 1),
       onInputDown := Some (k + 2),
       onInputUp := Some (k + 3),
       onDragStart := Some (k + 4),
       onDragStop := Some (k + 5)\<rparr>"

text \<open>
  Modelled from the spec: the collaborator that enables the animation signals is not
  in these sources; the spec has it create all three animation signals together.
\<close>

definition enable_animation :: "ref \<Rightarrow> events \<Rightarrow> events" where
  "enable_animation k h =
     h\<lparr>onAnimationStart := Some k,
       onAnimationComplete := Some (k + 1),
       onAnimationLoop := Some (k + 2)\<rparr>"

text \<open>
  \<^verbatim>\<open>this.f.dispose()\<close> for each field of a list, in order: a \<^verbatim>\<open>TypeError\<close> at the
  first field that is \<^verbatim>\<open>null\<close>, else the calls made.
\<close>

fun dispose_all :: "ref option list \<Rightarrow> fault + call list" where
  "dispose_all [] = Inr []"
| "dispose_all (None # fs) = Inl TypeError"
| "dispose_all (Some s # fs) =
     (case dispose_all fs of Inl e \<Rightarrow> Inl e | Inr cs \<Rightarrow> Inr (Dispose s # cs))"

text \<open>destroy (lines 39-65).\<close>

definition Events_destroy :: "events \<Rightarrow> fault + (events \<times> call list)" where
  "Events_destroy h =
     (case dispose_all [onAddedToGroup h, onRemovedFromGroup h, onKilled h, onRevived h,
                        onOutOfBounds h] of
        Inl e \<Rightarrow> Inl e
      | Inr c1 \<Rightarrow>
          (case (if onInputOver h \<noteq> None
                 then dispose_all [onInputOver h, onInputOut h, onInputDown h, onInputUp h,
                                   onDragStart h, onDragStop h]
                 else Inr []) of
             Inl e \<Rightarrow> Inl e
           | Inr c2 \<Rightarrow>
               (case (if onAnimationStart h \<noteq> None
                      then dispose_all [onAnimationStart h, onAnimationComplete h,
                                        onAnimationLoop h]
                      else Inr []) of
                  Inl e \<Rightarrow> Inl e
                | Inr c3 \<Rightarrow> Inr (h\<lparr>parent := None\<rparr>, c1 @ c2 @ c3))))"

text \<open>
  Modelled from the spec: \<^verbatim>\<open>Phaser.Signal\<close> is not in these sources. The spec has
  dispose make the channel permanently inert, and has a second destroy of the hub
  dereference already-cleared references and fault: dispose clears what the channel
  holds, and a dispose of a channel already disposed reads what was cleared and
  faults. The state \<open>D\<close> lists the signals disposed so far.
\<close>

definition Signal_dispose :: "ref \<Rightarrow> ref list \<Rightarrow> fault + ref list" where
  "Signal_dispose s D = (if s \<in> set D then Inl TypeError else Inr (s # D))"

text \<open>
  The calls of a destroy as the signals take them: each dispose call in its turn, to
  the first that faults.
\<close>

fun dispose_calls :: "call list \<Rightarrow> ref list \<Rightarrow> fault + ref list" where
  "dispose_calls [] D = Inr D"
| "dispose_calls (Dispose s # cs) D =
     (case Signal_dispose s D of Inl e \<Rightarrow> Inl e | Inr D1 \<Rightarrow> dispose_calls cs D1)"
| "dispose_calls (c # cs) D = dispose_calls cs D"

text \<open>The hub's destroy together with the state of the signals it disposes.\<close>

definition Events_destroy_signals :: "events \<Rightarrow> ref list \<Rightarrow> fault + (events \<times> ref list)" where
  "Events_destroy_signals h D =
     (case Events_destroy h of
        Inl e \<Rightarrow> Inl e
      | Inr (h1, cs) \<Rightarrow>
          (case dispose_calls cs D of Inl e \<Rightarrow> Inl e | Inr D1 \<Rightarrow> Inr (h1, D1)))"

text \<open>
  The hub as the constructor and the two enabling collaborators leave it: the five
  fixed signals present, and each optional group present as a whole or absent as a whole.
\<close>

definition groups_whole :: "events \<Rightarrow> bool" where
  "groups_whole h =
     (onAddedToGroup h \<noteq> None \<and> onRemovedFromGroup h \<noteq> None \<and> onKilled h \<noteq> None \<and>
      onRevived h \<noteq> None \<and> onOutOfBounds h \<noteq> None \<and>
      (onInputOver h \<noteq> None) = (onInputOut h \<noteq> None) \<and>
      (onInputOver h \<noteq> None) = (onInputDown h \<noteq> None) \<and>
      (onInputOver h \<noteq> None) = (onInputUp h \<noteq> None) \<and>
      (onInputOver h \<noteq> None) = (onDragStart h \<noteq> None) \<and>
      (onInputOver h \<noteq> None) = (onDragStop h \<noteq> None) \<and>
      (onAnimationStart h \<noteq> None) = (onAnimationComplete h \<noteq> None) \<and>
      (onAnimationStart h \<noteq> None) = (onAnimationLoop h \<noteq> None))"

section \<open>Sample objects\<close>

definition sample_engine :: engine where
  "sample_engine =
     \<lparr>TEXT = 4,
      PIXI_Text = (\<lambda>t s. \<lparr>pixi_canvas = Some \<lparr>parentNode = None\<rparr>,
                           pixi_context = Some 1,
                           pixi_rotation = 0\<rparr>)\<rparr>"

text \<open>\<^verbatim>\<open>new Phaser.Text(game, 10, 20, "hi", style)\<close>, the spec's scenario.\<close>

definition sample_node :: "jsnum text_node" where
  "sample_node = Text_body sample_engine (JObj 0) (Num 10) (Num 20) (JStr ''hi'') (JObj 2)"

text \<open>The same node after the game has assigned \<^verbatim>\<open>node.x = 7\<close>.\<close>

definition moved_node :: "jsnum text_node" where
  "moved_node = sample_node\<lparr>node_x := Num 7\<rparr>"

text \<open>
  The same node after the game has assigned 50 to both \<^verbatim>\<open>node.x\<close> and
  \<^verbatim>\<open>node.position.x\<close>.
\<close>

definition teleported_node :: "jsnum text_node" where
  "teleported_node = sample_node\<lparr>node_x := Num 50, position := \<lparr>px = Num 50, py = Num 20\<rparr>\<rparr>"

text \<open>The same node after the game has assigned \<^verbatim>\<open>node.x = NaN\<close>.\<close>

definition nan_node :: "jsnum text_node" where
  "nan_node = sample_node\<lparr>node_x := NaN\<rparr>"

text \<open>
  The same node in group 5, with its canvas appended to the DOM element 3.
\<close>

definition attached_node :: "jsnum text_node" where
  "attached_node = sample_node\<lparr>canvas := Some \<lparr>parentNode = Some 3\<rparr>, group := Some 5\<rparr>"

text \<open>
  Hubs of sprite 9: as constructed (signals 0 to 4), with the input group enabled
  (signals 5 to 10), and with the animation group enabled as well (signals 11 to 13).
\<close>

definition hub_plain :: events where
  "hub_plain = Events 9 0"

definition hub_input :: events where
  "hub_input = enable_input 5 (Events 9 0)"

definition hub_both :: events where
  "hub_both = enable_animation 11 (enable_input 5 (Events 9 0))"

section \<open>Auxiliary facts\<close>

lemma sample_node_fields:
  "exists sample_node"
  "group sample_node = None"
  "priv_text sample_node = JStr ''hi''"
  "priv_style sample_node = JObj 2"
  "canvas sample_node = Some \<lparr>parentNode = None\<rparr>"
  "context_ref sample_node = Some 1"
  "rotation sample_node = 0"
  "position sample_node = \<lparr>px = Num 10, py = Num 20\<rparr>"
  "node_x sample_node = Num 10"
  "node_y sample_node = Num 20"
  "dirty (priv_cache sample_node) = False"
  "cache_x (priv_cache sample_node) = Num 10"
  "cache_y (priv_cache sample_node) = Num 20"
  "a02 (priv_cache sample_node) = Num 10"
  "a12 (priv_cache sample_node) = Num 20"
  by (simp_all add: sample_node_def Text_body_def sample_engine_def Let_def)

lemma dispose_all_present:
  "list_all (\<lambda>f. f \<noteq> None) fs \<Longrightarrow> dispose_all fs = Inr (map (\<lambda>f. Dispose (the f)) fs)"
  by (induction fs rule: dispose_all.induct) simp_all

lemma dispose_calls_keeps:
  "dispose_calls cs D = Inr D1 \<Longrightarrow> s \<in> set D \<Longrightarrow> s \<in> set D1"
  by (induction cs D rule: dispose_calls.induct)
     (auto simp: Signal_dispose_def split: if_splits)

lemma dispose_calls_first:
  "dispose_calls (Dispose s # cs) D = Inr D1 \<Longrightarrow> s \<in> set D1"
  by (auto simp: Signal_dispose_def split: if_splits dest: dispose_calls_keeps [where s = s])

lemma Events_destroy_first_call:
  "Events_destroy h = Inr (h1, cs) \<Longrightarrow>
   h1 = h\<lparr>parent := None\<rparr> \<and> (\<exists>s cs1. cs = Dispose s # cs1)"
  by (cases "onAddedToGroup h")
     (auto simp: Events_destroy_def split: sum.splits if_splits)

lemma Events_destroy_again:
  "Events_destroy h = Inr (h1, cs) \<Longrightarrow> Events_destroy h1 = Inr (h1, cs)"
  by (auto simp: Events_destroy_def split: sum.splits if_splits)

lemma falsy_cases:
  "(\<not> truthy v) = (v = JUndefined \<or> v = JNull \<or> v = JBool False \<or> v = JNum 0 \<or> v = JStr [])"
  by (cases v) auto

section \<open>Properties of update\<close>

text \<open>
  C1, as the code has it. For a node with \<open>exists = true\<close>, after update the dirty
  flag is true if and only if, at the start of the call, \<open>position.x\<close> or
  \<open>position.y\<close> differed (under \<^verbatim>\<open>!=\<close>) from the node's own \<open>x\<close> or \<open>y\<close>;
  update copies these two into \<open>cache.x\<close> and \<open>cache.y\<close> before it compares, so the
  values the cache held before the call play no part.
\<close>

theorem update_dirty_iff:
  "exists n \<Longrightarrow>
   dirty (priv_cache (update n)) =
     (num_neq (px (position n)) (node_x n) \<or> num_neq (py (position n)) (node_y n)) \<and>
   cache_x (priv_cache (update n)) = node_x n \<and>
   cache_y (priv_cache (update n)) = node_y n"
  by (simp add: update_def Let_def)

theorem update_dirty_iff_witness:
  "exists moved_node \<and>
   dirty (priv_cache (update moved_node)) \<and>
   num_neq (px (position moved_node)) (node_x moved_node) \<and>
   cache_x (priv_cache (update moved_node)) = Num 7"
  using update_dirty_iff [of moved_node]
  by (simp add: moved_node_def sample_node_fields num_neq_def)

text \<open>
  C1, as stated (dirty if and only if the position differed from the x and y the cache
  held at the start of the call), fails in both directions. After \<^verbatim>\<open>node.x = 7\<close>
  the position still equals the cached x and y, and update sets dirty. After 50 is
  assigned to both \<^verbatim>\<open>node.x\<close> and \<^verbatim>\<open>position.x\<close> the position differs from
  the cached x, and update leaves dirty false.
\<close>

theorem update_dirty_old_cache_counterexample:
  "exists moved_node \<and>
   \<not> num_neq (px (position moved_node)) (cache_x (priv_cache moved_node)) \<and>
   \<not> num_neq (py (position moved_node)) (cache_y (priv_cache moved_node)) \<and>
   dirty (priv_cache (update moved_node)) \<and>
   exists teleported_node \<and>
   num_neq (px (position teleported_node)) (cache_x (priv_cache teleported_node)) \<and>
   \<not> dirty (priv_cache (update teleported_node))"
  by (simp add: moved_node_def teleported_node_def update_def sample_node_fields Let_def
      num_neq_def)

text \<open>
  C3. On a node with \<open>exists = false\<close>, update returns the node as it was: the cache
  (its dirty flag included), the position and every other field are unchanged.
\<close>

theorem update_not_exists_unchanged:
  "\<not> exists n \<Longrightarrow> update n = n"
  by (simp add: update_def)

theorem update_not_exists_unchanged_witness:
  "\<not> exists (moved_node\<lparr>exists := False\<rparr>) \<and>
   update (moved_node\<lparr>exists := False\<rparr>) = moved_node\<lparr>exists := False\<rparr>"
  using update_not_exists_unchanged [of "moved_node\<lparr>exists := False\<rparr>"]
  by simp

text \<open>
  C7. On a node with \<open>exists = true\<close>, update changes at most \<open>cache.dirty\<close>,
  \<open>cache.x\<close>, \<open>cache.y\<close>, \<open>position.x\<close> and \<open>position.y\<close>: the node after the call
  is the node before it with those five written. In particular the transform fields
  \<open>a00\<close>, \<open>a01\<close>, \<open>a02\<close>, \<open>a10\<close>, \<open>a11\<close>, \<open>a12\<close>, \<open>id\<close> and the scale fields
  \<open>scaleX\<close>, \<open>scaleY\<close> of the cache keep their values.
\<close>

theorem update_frame:
  "exists n \<Longrightarrow>
   update n =
     n\<lparr>position := (position n)\<lparr>px := px (position (update n)), py := py (position (update n))\<rparr>,
       priv_cache := (priv_cache n)\<lparr>dirty := dirty (priv_cache (update n)),
                                    cache_x := cache_x (priv_cache (update n)),
                                    cache_y := cache_y (priv_cache (update n))\<rparr>\<rparr> \<and>
   a00 (priv_cache (update n)) = a00 (priv_cache n) \<and>
   a01 (priv_cache (update n)) = a01 (priv_cache n) \<and>
   a02 (priv_cache (update n)) = a02 (priv_cache n) \<and>
   a10 (priv_cache (update n)) = a10 (priv_cache n) \<and>
   a11 (priv_cache (update n)) = a11 (priv_cache n) \<and>
   a12 (priv_cache (update n)) = a12 (priv_cache n) \<and>
   cache_id (priv_cache (update n)) = cache_id (priv_cache n) \<and>
   scaleX (priv_cache (update n)) = scaleX (priv_cache n) \<and>
   scaleY (priv_cache (update n)) = scaleY (priv_cache n)"
  by (simp add: update_def Let_def)

theorem update_frame_witness:
  "exists moved_node \<and>
   update moved_node =
     moved_node\<lparr>position := \<lparr>px = Num 7, py = Num 20\<rparr>,
                priv_cache := (priv_cache moved_node)\<lparr>dirty := True, cache_x := Num 7,
                                                      cache_y := Num 20\<rparr>\<rparr> \<and>
   a02 (priv_cache (update moved_node)) = Num 10 \<and>
   a12 (priv_cache (update moved_node)) = Num 20"
  using update_frame [of moved_node]
  by (simp add: moved_node_def update_def sample_node_def Text_body_def sample_engine_def Let_def
      num_neq_def)

text \<open>
  C10, as the code has it. On a node with \<open>exists = true\<close> whose \<open>x\<close> and \<open>y\<close> are
  not \<^verbatim>\<open>NaN\<close>, right after update \<open>position.x\<close> equals \<open>cache.x\<close> and
  \<open>position.y\<close> equals \<open>cache.y\<close>; a second update straight after the first
  changes nothing but the dirty flag, which it sets to false.
\<close>

theorem update_syncs_position:
  assumes "exists n" and "node_x n \<noteq> NaN" and "node_y n \<noteq> NaN"
  shows "px (position (update n)) = cache_x (priv_cache (update n)) \<and>
         py (position (update n)) = cache_y (priv_cache (update n)) \<and>
         \<not> num_neq (px (position (update n))) (cache_x (priv_cache (update n))) \<and>
         \<not> num_neq (py (position (update n))) (cache_y (priv_cache (update n))) \<and>
         update (update n) = (update n)\<lparr>priv_cache := (priv_cache (update n))\<lparr>dirty := False\<rparr>\<rparr>"
  using assms by (simp add: update_def Let_def num_neq_def)

theorem update_syncs_position_witness:
  "exists moved_node \<and>
   node_x moved_node = Num 7 \<and>
   node_y moved_node = Num 20 \<and>
   px (position (update moved_node)) = Num 7 \<and>
   cache_x (priv_cache (update moved_node)) = Num 7 \<and>
   dirty (priv_cache (update moved_node)) \<and>
   \<not> dirty (priv_cache (update (update moved_node))) \<and>
   position (update (update moved_node)) = position (update moved_node)"
proof -
  have h: "exists moved_node" "node_x moved_node \<noteq> NaN" "node_y moved_node \<noteq> NaN"
    by (simp_all add: moved_node_def sample_node_fields)
  show ?thesis
    using update_syncs_position [OF h]
    by (simp add: moved_node_def update_def sample_node_def Text_body_def sample_engine_def
        Let_def num_neq_def)
qed

text \<open>
  C10, as stated (for every node with \<open>exists = true\<close>), fails after
  \<^verbatim>\<open>node.x = NaN\<close>: update copies \<^verbatim>\<open>NaN\<close> into \<open>cache.x\<close> and into
  \<open>position.x\<close>, which then still differ under \<^verbatim>\<open>!=\<close>, and a second update
  sets the dirty flag to true again.
\<close>

theorem update_syncs_position_counterexample:
  "exists nan_node \<and>
   num_neq (px (position (update nan_node))) (cache_x (priv_cache (update nan_node))) \<and>
   dirty (priv_cache (update (update nan_node)))"
  by (simp add: nan_node_def update_def sample_node_fields Let_def num_neq_def)

section \<open>Properties of the setters and of angle\<close>

text \<open>
  C4. Setting \<open>content\<close> to a value equal to \<open>_text\<close> makes no call and returns the
  node as it was; setting it to a different value stores the value in \<open>_text\<close> and
  makes exactly one call, \<open>setText\<close> with that value. The same holds of \<open>font\<close>,
  \<open>_style\<close> and \<open>setStyle\<close>. Equal is the equality of \<^verbatim>\<open>===\<close>: for an object,
  the same reference.
\<close>

theorem setters_rerender_on_change_only:
  "(v = priv_text n \<longrightarrow> content_set v n = (n, [])) \<and>
   (v \<noteq> priv_text n \<longrightarrow> content_set v n = (n\<lparr>priv_text := v\<rparr>, [SetText v])) \<and>
   (v = priv_style n \<longrightarrow> font_set v n = (n, [])) \<and>
   (v \<noteq> priv_style n \<longrightarrow> font_set v n = (n\<lparr>priv_style := v\<rparr>, [SetStyle v]))"
  by (simp add: content_set_def font_set_def strict_neq_def)

theorem setters_rerender_on_change_only_witness:
  "content_get sample_node = JStr ''hi'' \<and>
   content_set (JStr ''hi'') sample_node = (sample_node, []) \<and>
   content_set (JStr ''bye'') sample_node =
     (sample_node\<lparr>priv_text := JStr ''bye''\<rparr>, [SetText (JStr ''bye'')]) \<and>
   font_get sample_node = JObj 2 \<and>
   font_set (JObj 2) sample_node = (sample_node, []) \<and>
   font_set (JObj 7) sample_node = (sample_node\<lparr>priv_style := JObj 7\<rparr>, [SetStyle (JObj 7)])"
  using setters_rerender_on_change_only [of "JStr ''hi''" sample_node]
    setters_rerender_on_change_only [of "JStr ''bye''" sample_node]
    setters_rerender_on_change_only [of "JObj 2" sample_node]
    setters_rerender_on_change_only [of "JObj 7" sample_node]
  by (simp add: sample_node_fields content_get_def font_get_def)

text \<open>
  C8. Setting \<open>angle\<close> to \<open>v\<close> and reading it back gives \<open>v\<close>: the two conversions
  are inverse to each other, the setter writes \<open>rotation\<close> only and the getter reads
  \<open>rotation\<close> only. Over the reals the round trip is exact.
\<close>

theorem angle_round_trip:
  "angle_get (angle_set v n) = v \<and>
   radToDeg (degToRad v) = v \<and>
   degToRad (radToDeg r) = r \<and>
   angle_set v n = n\<lparr>rotation := degToRad v\<rparr> \<and>
   angle_get (n\<lparr>rotation := r\<rparr>) = radToDeg r"
  by (simp add: angle_get_def angle_set_def radToDeg_def degToRad_def)

theorem angle_round_trip_witness:
  "angle_get (angle_set 45 sample_node) = 45 \<and>
   angle_get (angle_set (- 90) sample_node) = - 90 \<and>
   rotation (angle_set 180 sample_node) = pi"
  using angle_round_trip [of 45 sample_node] angle_round_trip [of "- 90" sample_node]
    angle_round_trip [of 180 sample_node]
  by (simp add: degToRad_def)

section \<open>Properties of the constructor\<close>

text \<open>
  C9. The constructor replaces every falsy argument by its default: a call with a
  falsy \<open>x\<close>, \<open>y\<close>, \<open>text\<close> or \<open>style\<close> (each of \<open>0\<close>, \<open>''\<close>, \<open>null\<close>,
  \<open>undefined\<close>, \<open>false\<close> is falsy, and nothing else is) builds the same object as the
  call with that argument omitted; a falsy \<open>x\<close> or \<open>y\<close> gives 0, a falsy \<open>text\<close>
  gives \<open>_text = ''\<close> and a falsy \<open>style\<close> gives \<open>_style = ''\<close>.
\<close>

theorem Text_defaults_falsy:
  assumes "\<not> truthy fx" and "\<not> truthy fy" and "\<not> truthy ft" and "\<not> truthy fs"
  shows "Text E g fx y t s = Text E g JUndefined y t s \<and>
         Text E g x fy t s = Text E g x JUndefined t s \<and>
         Text E g x y ft s = Text E g x y JUndefined s \<and>
         Text E g x y t fs = Text E g x y t JUndefined \<and>
         Text E g fx fy ft fs = Text E g JUndefined JUndefined JUndefined JUndefined \<and>
         node_x (Text E g fx y t s) = JNum 0 \<and>
         node_y (Text E g x fy t s) = JNum 0 \<and>
         priv_text (Text E g x y ft s) = JStr [] \<and>
         priv_style (Text E g x y t fs) = JStr [] \<and>
         (\<not> truthy v) =
           (v = JUndefined \<or> v = JNull \<or> v = JBool False \<or> v = JNum 0 \<or> v = JStr [])"
proof -
  have "(\<not> truthy v) =
          (v = JUndefined \<or> v = JNull \<or> v = JBool False \<or> v = JNum 0 \<or> v = JStr [])"
    by (rule falsy_cases)
  with assms show ?thesis
    by (simp add: Text_def js_or_def Text_body_def Let_def)
qed

theorem Text_defaults_falsy_witness:
  "\<not> truthy (JNum 0) \<and> \<not> truthy (JStr []) \<and> \<not> truthy (JBool False) \<and> \<not> truthy JNull \<and>
   Text sample_engine (JObj 0) (JNum 0) (JStr []) (JBool False) JNull =
     Text sample_engine (JObj 0) JUndefined JUndefined JUndefined JUndefined \<and>
   priv_text (Text sample_engine (JObj 0) (JNum 10) (JNum 20) (JBool False) (JObj 2)) = JStr [] \<and>
   priv_style (Text sample_engine (JObj 0) (JNum 10) (JNum 20) (JStr ''hi'') JNull) = JStr []"
proof -
  have f: "\<not> truthy (JNum 0)" "\<not> truthy (JStr [])" "\<not> truthy (JBool False)" "\<not> truthy JNull"
    by simp_all
  show ?thesis
    using f Text_defaults_falsy [OF f, where E = sample_engine and g = "JObj 0" and x = "JNum 10"
        and y = "JNum 20" and t = "JStr ''hi''" and s = "JObj 2" and v = JNull]
    by (simp add: Text_def js_or_def Text_body_def Let_def)
qed

section \<open>Properties of destroy\<close>

text \<open>
  C6. A first call of destroy on a node whose canvas is live returns normally, and:
  \<open>group.remove\<close> was called on a group exactly when the node was in that group;
  the canvas and context handles are null afterwards exactly when the canvas had no
  parent; when it had a parent \<open>p\<close>, \<open>removeChild\<close> was called on \<open>p\<close> and on
  nothing else, the canvas handle is kept (detached) and the context is untouched;
  and afterwards \<open>exists = false\<close> and \<open>group = null\<close>.
\<close>

theorem destroy_first_call:
  assumes "canvas n = Some cv"
  shows "\<exists>n1 cs. destroy n = Inr (n1, cs) \<and>
           (\<forall>g. (Group_remove g \<in> set cs) = (group n = Some g)) \<and>
           (canvas n1 = None \<and> context_ref n1 = None) = (parentNode cv = None) \<and>
           (\<forall>p. (RemoveChild p \<in> set cs) = (parentNode cv = Some p)) \<and>
           (parentNode cv \<noteq> None) =
             (canvas n1 = Some (cv\<lparr>parentNode := None\<rparr>) \<and> context_ref n1 = context_ref n) \<and>
           exists n1 = False \<and> group n1 = None"
  using assms
  by (cases "parentNode cv"; cases "group n") (auto simp add: destroy_def removeChild_def)

theorem destroy_first_call_witness:
  "canvas attached_node = Some \<lparr>parentNode = Some 3\<rparr> \<and>
   destroy attached_node =
     Inr (attached_node\<lparr>canvas := Some \<lparr>parentNode = None\<rparr>, exists := False, group := None\<rparr>,
          [Group_remove 5, RemoveChild 3]) \<and>
   canvas sample_node = Some \<lparr>parentNode = None\<rparr> \<and>
   destroy sample_node =
     Inr (sample_node\<lparr>canvas := None, context_ref := None, exists := False, group := None\<rparr>, [])"
proof -
  have a: "canvas attached_node = Some \<lparr>parentNode = Some 3\<rparr>"
    by (simp add: attached_node_def)
  have b: "canvas sample_node = Some \<lparr>parentNode = None\<rparr>"
    by (simp add: sample_node_fields)
  show ?thesis
    using destroy_first_call [OF a] destroy_first_call [OF b] a b
    by (simp add: destroy_def removeChild_def attached_node_def sample_node_fields)
qed

text \<open>
  C5, as the code has it. Neither destroy is idempotent. A second call of destroy on
  a text node faults, reading \<open>parentNode\<close> of the null canvas, exactly when the
  first call released the canvas, that is when the canvas had no parent; when it had
  one, the second call returns normally. The null \<open>group\<close> is never read through:
  the test guards it. A second call of destroy on a hub faults: its first dispose
  call reaches a signal that the first destroy disposed.
\<close>

theorem destroy_twice:
  assumes "canvas n = Some cv" and "Events_destroy_signals h D = Inr (h1, D1)"
  shows "(\<exists>n1 cs. destroy n = Inr (n1, cs) \<and> group n1 = None \<and>
            (destroy n1 = Inl TypeError) = (parentNode cv = None)) \<and>
         Events_destroy_signals h1 D1 = Inl TypeError"
proof -
  have "\<exists>n1 cs. destroy n = Inr (n1, cs) \<and> group n1 = None \<and>
            (destroy n1 = Inl TypeError) = (parentNode cv = None)"
    using assms(1) by (cases "parentNode cv") (simp_all add: destroy_def removeChild_def)
  moreover have "Events_destroy_signals h1 D1 = Inl TypeError"
  proof -
    from assms(2) obtain cs where e: "Events_destroy h = Inr (h1, cs)"
      and d: "dispose_calls cs D = Inr D1"
      by (auto simp: Events_destroy_signals_def split: sum.splits)
    from e obtain s cs1 where c: "cs = Dispose s # cs1"
      using Events_destroy_first_call by blast
    have "s \<in> set D1"
      using d c dispose_calls_first by blast
    moreover have "Events_destroy h1 = Inr (h1, cs)"
      using e by (rule Events_destroy_again)
    ultimately show ?thesis
      by (simp add: Events_destroy_signals_def c Signal_dispose_def)
  qed
  ultimately show ?thesis by simp
qed

theorem destroy_twice_witness:
  "canvas sample_node = Some \<lparr>parentNode = None\<rparr> \<and>
   Events_destroy_signals hub_plain [] = Inr (hub_plain\<lparr>parent := None\<rparr>, [4, 3, 2, 1, 0]) \<and>
   destroy sample_node =
     Inr (sample_node\<lparr>canvas := None, context_ref := None, exists := False, group := None\<rparr>, []) \<and>
   destroy (sample_node\<lparr>canvas := None, context_ref := None, exists := False, group := None\<rparr>) =
     Inl TypeError \<and>
   Events_destroy_signals (hub_plain\<lparr>parent := None\<rparr>) [4, 3, 2, 1, 0] = Inl TypeError"
proof -
  have c: "canvas sample_node = Some \<lparr>parentNode = None\<rparr>"
    by (simp add: sample_node_fields)
  have e: "Events_destroy_signals hub_plain [] =
             Inr (hub_plain\<lparr>parent := None\<rparr>, [4, 3, 2, 1, 0])"
    by (simp add: hub_plain_def Events_destroy_signals_def Events_destroy_def Events_def
        Signal_dispose_def)
  show ?thesis
    using destroy_twice [OF c e] c e
    by (simp add: destroy_def sample_node_fields)
qed

text \<open>
  C5, as stated (every second call faults), fails for the text node: the node whose
  canvas was attached is destroyed twice without a fault. The first call asks the parent to remove the
  canvas and keeps the handle; the second finds the canvas without a parent and
  releases it.
\<close>

theorem destroy_twice_counterexample:
  "destroy attached_node =
     Inr (attached_node\<lparr>canvas := Some \<lparr>parentNode = None\<rparr>, exists := False, group := None\<rparr>,
          [Group_remove 5, RemoveChild 3]) \<and>
   destroy (attached_node\<lparr>canvas := Some \<lparr>parentNode = None\<rparr>, exists := False, group := None\<rparr>) =
     Inr (attached_node\<lparr>canvas := None, context_ref := None, exists := False, group := None\<rparr>, [])"
  by (simp add: attached_node_def destroy_def removeChild_def sample_node_fields)

section \<open>Properties of the hub's destroy\<close>

text \<open>
  C2, as the code has it. On a hub whose five fixed signals are present and whose
  optional groups are each whole or absent, destroy returns normally, clears
  \<open>parent\<close>, and makes exactly 5 dispose calls, plus 6 when the input group is
  enabled, plus 3 when the animation group is enabled: 5, 11, 8 or 14.
\<close>

theorem Events_destroy_counts:
  assumes "groups_whole h"
  shows "\<exists>cs. Events_destroy h = Inr (h\<lparr>parent := None\<rparr>, cs) \<and>
           length cs = 5 + (if onInputOver h \<noteq> None then 6 else 0)
                         + (if onAnimationStart h \<noteq> None then 3 else 0)"
proof -
  have fixed: "dispose_all [onAddedToGroup h, onRemovedFromGroup h, onKilled h, onRevived h,
                            onOutOfBounds h] =
               Inr (map (\<lambda>f. Dispose (the f)) [onAddedToGroup h, onRemovedFromGroup h,
                      onKilled h, onRevived h, onOutOfBounds h])"
    using assms by (intro dispose_all_present) (simp add: groups_whole_def)
  have inp: "onInputOver h \<noteq> None \<Longrightarrow>
             dispose_all [onInputOver h, onInputOut h, onInputDown h, onInputUp h,
                          onDragStart h, onDragStop h] =
             Inr (map (\<lambda>f. Dispose (the f)) [onInputOver h, onInputOut h, onInputDown h,
                    onInputUp h, onDragStart h, onDragStop h])"
    using assms by (intro dispose_all_present) (simp add: groups_whole_def)
  have ani: "onAnimationStart h \<noteq> None \<Longrightarrow>
             dispose_all [onAnimationStart h, onAnimationComplete h, onAnimationLoop h] =
             Inr (map (\<lambda>f. Dispose (the f)) [onAnimationStart h, onAnimationComplete h,
                    onAnimationLoop h])"
    using assms by (intro dispose_all_present) (simp add: groups_whole_def)
  show ?thesis
    by (cases "onInputOver h = None"; cases "onAnimationStart h = None")
       (simp_all add: Events_destroy_def fixed inp ani del: dispose_all.simps)
qed

theorem Events_destroy_counts_witness:
  "groups_whole hub_plain \<and>
   (\<exists>cs. Events_destroy hub_plain = Inr (hub_plain\<lparr>parent := None\<rparr>, cs) \<and> length cs = 5) \<and>
   groups_whole hub_input \<and>
   (\<exists>cs. Events_destroy hub_input = Inr (hub_input\<lparr>parent := None\<rparr>, cs) \<and> length cs = 11) \<and>
   groups_whole (enable_animation 5 hub_plain) \<and>
   (\<exists>cs. Events_destroy (enable_animation 5 hub_plain) =
           Inr (enable_animation 5 hub_plain\<lparr>parent := None\<rparr>, cs) \<and> length cs = 8)"
proof -
  have w: "groups_whole hub_plain" "groups_whole hub_input"
    "groups_whole (enable_animation 5 hub_plain)"
    by (simp_all add: hub_plain_def hub_input_def groups_whole_def Events_def
        enable_input_def enable_animation_def)
  show ?thesis
    using w Events_destroy_counts [OF w(1)] Events_destroy_counts [OF w(2)]
      Events_destroy_counts [OF w(3)]
    by (simp add: hub_plain_def hub_input_def Events_def enable_input_def enable_animation_def)
qed

text \<open>
  C2, as stated (exactly 11 dispose calls when both groups are enabled), fails: with
  both groups enabled the hub holds 5 + 6 + 3 signals and destroy disposes all 14.
\<close>

theorem Events_destroy_both_counterexample:
  "groups_whole hub_both \<and>
   Events_destroy hub_both =
     Inr (hub_both\<lparr>parent := None\<rparr>,
          [Dispose 0, Dispose 1, Dispose 2, Dispose 3, Dispose 4,
           Dispose 5, Dispose 6, Dispose 7, Dispose 8, Dispose 9, Dispose 10,
           Dispose 11, Dispose 12, Dispose 13]) \<and>
   length [Dispose 0, Dispose 1, Dispose 2, Dispose 3, Dispose 4,
           Dispose 5, Dispose 6, Dispose 7, Dispose 8, Dispose 9, Dispose 10,
           Dispose 11, Dispose 12, Dispose 13] = 14"
  by (simp add: hub_both_def groups_whole_def Events_destroy_def Events_def
      enable_input_def enable_animation_def)

end
